theory Spec2Isabelle
  imports Main
begin

section \<open>Python strings\<close>

text \<open>
  A Python \<open>str\<close> is modelled as a \<^typ>\<open>string\<close> whose characters are the code points
  below 256. On these \<open>str.lower\<close> maps A..Z and the Latin-1 capitals (192..222 except
  215) to the letter 32 places later, and \<open>str.isspace\<close> holds of 9..13, 28..32, 133 and
  160.
\<close>

definition lower_char :: "char \<Rightarrow> char" where
  "lower_char c =
     (let n = (of_char c :: nat)
      in if (65 \<le> n \<and> n \<le> 90) \<or> (192 \<le> n \<and> n \<le> 222 \<and> n \<noteq> 215)
         then char_of (n + 32) else c)"

definition lower :: "string \<Rightarrow> string" where
  "lower s = map lower_char s"

definition isspace :: "char \<Rightarrow> bool" where
  "isspace c =
     (let n = (of_char c :: nat)
      in (9 \<le> n \<and> n \<le> 13) \<or> (28 \<le> n \<and> n \<le> 32) \<or> n = 133 \<or> n = 160)"

definition strip :: "string \<Rightarrow> string" where
  "strip s = rev (dropWhile isspace (rev (dropWhile isspace s)))"

text \<open>\<open>sub in s\<close> on strings: \<open>sub\<close> occurs in \<open>s\<close> as a contiguous block.\<close>

fun starts_with :: "string \<Rightarrow> string \<Rightarrow> bool" where
  "starts_with [] s = True"
| "starts_with (p # ps) [] = False"
| "starts_with (p # ps) (c # cs) = (p = c \<and> starts_with ps cs)"

fun str_in :: "string \<Rightarrow> string \<Rightarrow> bool" where
  "str_in sub [] = (sub = [])"
| "str_in sub (c # cs) = (starts_with sub (c # cs) \<or> str_in sub cs)"

text \<open>\<open>s.split(sep)[0]\<close> for a one-character separator: the text before its first
  occurrence (all of \<open>s\<close> when it does not occur).\<close>

definition split_first :: "char \<Rightarrow> string \<Rightarrow> string" where
  "split_first sep s = takeWhile (\<lambda>c. c \<noteq> sep) s"

text \<open>\<open>f"{i:04d}"\<close>: decimal, zero-padded to width 4, the sign counted in the width.\<close>

definition digit_char :: "nat \<Rightarrow> char" where
  "digit_char d = char_of (48 + d)"

fun digits :: "nat \<Rightarrow> string" where
  "digits n = (if n < 10 then [digit_char n] else digits (n div 10) @ [digit_char (n mod 10)])"

declare digits.simps [simp del]

definition zfill :: "nat \<Rightarrow> string \<Rightarrow> string" where
  "zfill width s = replicate (width - length s) (CHR ''0'') @ s"

definition fmt_04d :: "int \<Rightarrow> string" where
  "fmt_04d i = (if i < 0 then CHR ''-'' # zfill 3 (digits (nat (- i))) else zfill 4 (digits (nat i)))"

text \<open>\<open>os.path.join(a, b)\<close> on POSIX paths.\<close>

definition path_join :: "string \<Rightarrow> string \<Rightarrow> string" where
  "path_join a b =
     (if starts_with ''/'' b then b
      else if a = [] \<or> last a = CHR ''/'' then a @ b
      else a @ ''/'' @ b)"

section \<open>The outside world\<close>

text \<open>
  Every call that leaves the program is answered by the environment. An exception is a
  value: \<open>Inl msg\<close> is a raised \<open>Exception\<close> whose \<open>str(e)\<close> is \<open>msg\<close>.
\<close>

text \<open>What copying the response body to \<open>dest_path\<close> does: the whole body arrives, or
  an exception is raised when opening the destination (no file) or in mid-stream (the
  bytes written so far stay in the file).\<close>

datatype copy_result =
    CopyDone string
  | CopyRaised "string option" string

text \<open>\<open>requests.get(url, stream=True, timeout=60)\<close> with \<open>raise_for_status\<close>: an
  exception (also a failing \<open>import requests\<close>), or the \<open>Content-Type\<close> header, if any,
  followed by the copy.\<close>

datatype get_result =
    GetRaised string
  | GetHeaders "string option" copy_result

text \<open>The video decoder on the downloaded file: an exception anywhere in the block,
  \<open>cap.isOpened()\<close> false, \<open>cap.read()\<close> without a frame, or the first frame as a still.\<close>

datatype video_result =
    VideoRaised string
  | NotOpened
  | NoFrame
  | FirstFrame string

record env =
  requests_head :: "string \<Rightarrow> string + string option"
  requests_get :: "string \<Rightarrow> get_result"
  urlopen :: "string \<Rightarrow> string + string"
  write_error :: "string \<Rightarrow> bool"
  remove_error :: "string \<Rightarrow> bool"
  image_open :: "string option \<Rightarrow> string + string"
  video_capture :: "string option \<Rightarrow> video_result"
  embed_image_clip_to_npy :: "string \<Rightarrow> string + string"
  csv_rows :: "string \<Rightarrow> (string \<times> string option) list list option"

text \<open>
  \<^item> \<open>requests_head url\<close>: \<open>requests.head(url, timeout=10, allow_redirects=True)\<close>, an
    exception or the \<open>Content-Type\<close> header of the answer, if it has one.
  \<^item> \<open>urlopen url\<close>: the \<open>urllib\<close> transport copying to \<open>dest_path\<close>, an exception or
    the bytes.
  \<^item> \<open>write_error p\<close>: \<open>open(p, "w")\<close> raises (the path is left as it was);
    \<open>remove_error p\<close>: \<open>os.remove(p)\<close> raises (the file stays).
  \<^item> \<open>image_open\<close> is PIL opening the downloaded file (\<open>None\<close>: no such file), converting
    to RGB when needed and saving the still; \<open>video_capture\<close> is the OpenCV block.
  \<^item> \<open>csv_rows p\<close>: the rows \<open>csv.DictReader\<close> yields for the file at \<open>p\<close>, \<open>None\<close> when
    there is no such file. A row is a dict in insertion order, a cell is \<open>None\<close> when the
    line was too short.
\<close>

text \<open>
  Modelled from the spec: \<open>app.embed_image_clip_to_npy(frame_path, out_path, model_id)\<close>
  is not among the sources. Following the Embedder Gateway contract it either raises
  (\<open>Inl\<close>, nothing persisted) or returns after persisting the vector of the still at
  \<open>out_path\<close>, replacing what was there (\<open>Inr\<close> the bytes of the artifact).
\<close>

datatype event =
    MakeDirs string
  | OsRemove string
  | OpenWrite string string
  | HttpHead string
  | HttpGet string
  | UrlOpen string
  | EmbedCall string

record world =
  files :: "string \<rightharpoonup> string"
  dirs :: "string set"
  tmp_media :: "string option"
  events :: "event list"

text \<open>
  \<open>files\<close> is the content of every regular file of the output tree, \<open>dirs\<close> its
  directories, \<open>tmp_media\<close> the downloaded file inside the scoped temporary directory
  (\<open>None\<close>: not there) and \<open>events\<close> the calls made so far, oldest first.
\<close>

definition is_network :: "event \<Rightarrow> bool" where
  "is_network ev = (case ev of HttpHead u \<Rightarrow> True | HttpGet u \<Rightarrow> True | UrlOpen u \<Rightarrow> True | _ \<Rightarrow> False)"

definition is_write :: "event \<Rightarrow> bool" where
  "is_write ev = (case ev of OpenWrite p c \<Rightarrow> True | EmbedCall p \<Rightarrow> True | _ \<Rightarrow> False)"

definition is_remove :: "event \<Rightarrow> bool" where
  "is_remove ev = (case ev of OsRemove p \<Rightarrow> True | _ \<Rightarrow> False)"

definition record_event :: "event \<Rightarrow> world \<Rightarrow> world" where
  "record_event ev w = w\<lparr>events := events w @ [ev]\<rparr>"

text \<open>A statement sequence: from a world to a returned value or a propagating
  exception, and the world it leaves.\<close>

type_synonym 'a prog = "world \<Rightarrow> (string + 'a) \<times> world"

definition ret :: "'a \<Rightarrow> 'a prog" where
  "ret v w = (Inr v, w)"

definition and_then :: "'a prog \<Rightarrow> ('a \<Rightarrow> 'b prog) \<Rightarrow> 'b prog" where
  "and_then m f w = (case m w of (Inl e, w') \<Rightarrow> (Inl e, w') | (Inr v, w') \<Rightarrow> f v w')"

definition try_except :: "'a prog \<Rightarrow> (string \<Rightarrow> 'a prog) \<Rightarrow> 'a prog" where
  "try_except body handler w = (case body w of (Inl e, w') \<Rightarrow> handler e w' | (Inr v, w') \<Rightarrow> (Inr v, w'))"

section \<open>Media Classifier: \<open>detect_media_type\<close>\<close>

definition image_exts :: "string list" where
  "image_exts = [''.jpg'', ''.jpeg'', ''.png'', ''.gif'', ''.bmp'', ''.webp'', ''.svg'', ''.tiff'', ''.tif'']"

definition video_exts :: "string list" where
  "video_exts = [''.mp4'', ''.mov'', ''.avi'', ''.mkv'', ''.webm'', ''.flv'', ''.wmv'', ''.m4v'', ''.3gp'']"

definition path_part :: "string \<Rightarrow> string" where
  "path_part url = split_first (CHR ''#'') (split_first (CHR ''?'') (lower url))"

text \<open>\<open>for ext in exts: if ext in path_part: return ...\<close>: whether the loop returns.\<close>

definition has_extension :: "string list \<Rightarrow> string \<Rightarrow> bool" where
  "has_extension exts path = list_ex (\<lambda>ext. str_in ext path) exts"

definition says_image :: "string \<Rightarrow> bool" where
  "says_image content_type = list_ex (\<lambda>img_type. str_in img_type content_type) [''image/'', ''image'']"

definition says_video :: "string \<Rightarrow> bool" where
  "says_video content_type = list_ex (\<lambda>vid_type. str_in vid_type content_type) [''video/'', ''video'']"

text \<open>\<open>headers.get('Content-Type', '').lower()\<close>\<close>

definition header_lower :: "string option \<Rightarrow> string" where
  "header_lower h = lower (case h of None \<Rightarrow> [] | Some v \<Rightarrow> v)"

text \<open>The body of the \<open>try\<close> of \<open>detect_media_type\<close>: it raises, returns a type
  (\<open>Some\<close>) or runs off its end (\<open>None\<close>).\<close>

definition head_probe :: "env \<Rightarrow> string \<Rightarrow> string option prog" where
  "head_probe env url w =
     (let w' = record_event (HttpHead url) w
      in case requests_head env url of
           Inl e \<Rightarrow> (Inl e, w')
         | Inr h \<Rightarrow>
             (let content_type = header_lower h
              in if says_image content_type then (Inr (Some ''image''), w')
                 else if says_video content_type then (Inr (Some ''video''), w')
                 else (Inr None, w')))"

definition detect_media_type :: "env \<Rightarrow> string \<Rightarrow> string prog" where
  "detect_media_type env url =
     (if has_extension image_exts (path_part url) then ret ''image''
      else if has_extension video_exts (path_part url) then ret ''video''
      else and_then (try_except (head_probe env url) (\<lambda>e. ret None))
             (\<lambda>r. case r of Some t \<Rightarrow> ret t | None \<Rightarrow> ret ''video''))"

section \<open>Fetcher: \<open>download_file\<close>\<close>

text \<open>
  \<open>download_file(url, dest_path)\<close> returns \<open>(media_type, error)\<close>. The destination is
  always the downloaded file of the temporary directory, \<^const>\<open>tmp_media\<close>, so the model
  takes no \<open>dest_path\<close>.
\<close>

text \<open>The body of the first \<open>try\<close>.\<close>

definition requests_block :: "env \<Rightarrow> string \<Rightarrow> (string \<times> string option) prog" where
  "requests_block env url w =
     (let w1 = record_event (HttpGet url) w
      in case requests_get env url of
           GetRaised e \<Rightarrow> (Inl e, w1)
         | GetHeaders h copy \<Rightarrow>
             and_then
               (let content_type = header_lower h
                in if says_image content_type then ret ''image''
                   else if says_video content_type then ret ''video''
                   else detect_media_type env url)
               (\<lambda>media_type w2.
                  case copy of
                    CopyDone bytes \<Rightarrow> (Inr (media_type, None), w2\<lparr>tmp_media := Some bytes\<rparr>)
                  | CopyRaised part e \<Rightarrow> (Inl e, w2\<lparr>tmp_media := part\<rparr>))
               w1)"

text \<open>
  The first \<open>try\<close>/\<open>except\<close> statement as a whole. Its value is \<open>Some r\<close> when the
  statement executes \<open>return r\<close> and \<open>None\<close> when control runs on to the statement after
  it. Both the body and the handler end in a \<open>return\<close>.
\<close>

definition download_with_requests :: "env \<Rightarrow> string \<Rightarrow> (string \<times> string option) option prog" where
  "download_with_requests env url =
     try_except
       (and_then (requests_block env url) (\<lambda>r. ret (Some r)))
       (\<lambda>e. and_then (detect_media_type env url)
               (\<lambda>media_type. ret (Some (media_type, Some e))))"

text \<open>The statement after it, under the comment \<open>Fallback urllib\<close>.\<close>

definition urllib_block :: "env \<Rightarrow> string \<Rightarrow> (string \<times> string option) prog" where
  "urllib_block env url w =
     (let w1 = record_event (UrlOpen url) w
      in case urlopen env url of
           Inl e \<Rightarrow> (Inl e, w1)
         | Inr bytes \<Rightarrow>
             and_then (detect_media_type env url) (\<lambda>media_type. ret (media_type, None))
               (w1\<lparr>tmp_media := Some bytes\<rparr>))"

definition download_with_urllib :: "env \<Rightarrow> string \<Rightarrow> (string \<times> string option) prog" where
  "download_with_urllib env url =
     try_except (urllib_block env url)
       (\<lambda>e. and_then (detect_media_type env url)
               (\<lambda>media_type. ret (media_type, Some (''Download failed: '' @ e))))"

definition download_file :: "env \<Rightarrow> string \<Rightarrow> (string \<times> string option) prog" where
  "download_file env url =
     and_then (download_with_requests env url)
       (\<lambda>r. case r of Some res \<Rightarrow> ret res | None \<Rightarrow> download_with_urllib env url)"

section \<open>Job Store and per-row pipeline: \<open>process_url\<close>\<close>

type_synonym row = "(string \<times> string option) list"

text \<open>Truth value of an \<open>Optional[str]\<close>: neither \<open>None\<close> nor the empty string.\<close>

definition truthy :: "string option \<Rightarrow> bool" where
  "truthy s = (case s of None \<Rightarrow> False | Some v \<Rightarrow> v \<noteq> [])"

text \<open>\<open>(cell or "")\<close>\<close>

definition or_empty :: "string option \<Rightarrow> string" where
  "or_empty cell = (case cell of None \<Rightarrow> [] | Some v \<Rightarrow> v)"

text \<open>The block that finds the URL of a row; the source has it twice, in \<open>read_urls\<close>
  and at the head of \<open>process_url\<close>.\<close>

definition extract_url :: "row \<Rightarrow> string option \<Rightarrow> string" where
  "extract_url row_data column =
     (if truthy column \<and> or_empty column \<in> fst ` set row_data
      then strip (case map_of row_data (or_empty column) of None \<Rightarrow> [] | Some cell \<Rightarrow> or_empty cell)
      else strip (case row_data of [] \<Rightarrow> [] | kv # rest \<Rightarrow> or_empty (snd kv)))"

text \<open>\<open>f"{key}={value}\n"\<close> for every column but the URL column; a \<open>None\<close> cell prints
  as \<open>None\<close>.\<close>

definition metadata_lines :: "row \<Rightarrow> string option \<Rightarrow> string" where
  "metadata_lines row_data url_column =
     concat (map (\<lambda>kv. fst kv @ ''='' @ (case snd kv of None \<Rightarrow> ''None'' | Some v \<Rightarrow> v) @ [CHR 0x0A])
               (filter (\<lambda>kv. Some (fst kv) \<noteq> url_column) row_data))"

text \<open>
  Modelled from the spec: \<open>app.ensure_dir(path)\<close> is not among the sources. Following the
  Job Store contract it creates the directory if absent and does nothing otherwise.
\<close>

definition ensure_dir :: "string \<Rightarrow> world \<Rightarrow> world" where
  "ensure_dir path w = (record_event (MakeDirs path) w)\<lparr>dirs := insert path (dirs w)\<rparr>"

text \<open>\<open>try: if os.path.exists(p): os.remove(p)  except Exception: pass\<close>\<close>

definition remove_if_exists :: "env \<Rightarrow> string \<Rightarrow> world \<Rightarrow> world" where
  "remove_if_exists env p w =
     (if files w p \<noteq> None
      then (let w1 = record_event (OsRemove p) w
            in if remove_error env p then w1 else w1\<lparr>files := (files w1)(p := None)\<rparr>)
      else w)"

text \<open>\<open>try: with open(p, "w") as f: f.write(text)  except Exception: pass\<close>\<close>

definition write_text :: "env \<Rightarrow> string \<Rightarrow> string \<Rightarrow> world \<Rightarrow> world" where
  "write_text env p content w =
     (let w1 = record_event (OpenWrite p content) w
      in if write_error env p then w1 else w1\<lparr>files := (files w1)(p \<mapsto> content)\<rparr>)"

text \<open>The \<open>if media_type == 'image'\<close> statement: the still frame, or the reason
  \<open>process_url\<close> returns.\<close>

definition extract_frame :: "env \<Rightarrow> string \<Rightarrow> string option \<Rightarrow> string + string" where
  "extract_frame env media_type downloaded =
     (if media_type = ''image''
      then (case image_open env downloaded of
              Inl e \<Rightarrow> Inl (''image_process_error: '' @ e)
            | Inr still \<Rightarrow> Inr still)
      else (case video_capture env downloaded of
              VideoRaised e \<Rightarrow> Inl (''first_frame_error: '' @ e)
            | NotOpened \<Rightarrow> Inl ''video_open_error''
            | NoFrame \<Rightarrow> Inl ''read_first_frame_error''
            | FirstFrame still \<Rightarrow> Inr still))"

text \<open>What follows a download that reported no error: \<open>media_type.txt\<close>, the still
  frame, the embedding.\<close>

definition after_download :: "env \<Rightarrow> string \<Rightarrow> string \<Rightarrow> string \<Rightarrow> string \<Rightarrow> (string \<times> nat \<times> string option) prog" where
  "after_download env job_id first_embed_path media_type_path media_type w =
     (let w1 = write_text env media_type_path media_type w
      in case extract_frame env media_type (tmp_media w1) of
           Inl reason \<Rightarrow> (Inr (job_id, 0, Some reason), w1)
         | Inr still \<Rightarrow>
             (let w2 = record_event (EmbedCall first_embed_path) w1
              in case embed_image_clip_to_npy env still of
                   Inl e \<Rightarrow> (Inr (job_id, 1, Some (''embed_error: '' @ e)), w2)
                 | Inr vector \<Rightarrow>
                     (Inr (job_id, 1, None), w2\<lparr>files := (files w2)(first_embed_path \<mapsto> vector)\<rparr>)))"

text \<open>The body of \<open>with tempfile.TemporaryDirectory()\<close>.\<close>

definition in_tempdir :: "env \<Rightarrow> string \<Rightarrow> string \<Rightarrow> string \<Rightarrow> string \<Rightarrow> (string \<times> nat \<times> string option) prog" where
  "in_tempdir env url job_id first_embed_path media_type_path =
     and_then (download_file env url)
       (\<lambda>res. if truthy (snd res)
                then ret (job_id, 0, Some (''download_error: '' @ or_empty (snd res)))
                else after_download env job_id first_embed_path media_type_path (fst res))"

text \<open>The temporary directory starts empty and is discarded however its body ends.\<close>

definition with_tempdir :: "'a prog \<Rightarrow> 'a prog" where
  "with_tempdir body w =
     (case body (w\<lparr>tmp_media := None\<rparr>) of (r, w') \<Rightarrow> (r, w'\<lparr>tmp_media := None\<rparr>))"

definition job_id_of :: "int \<Rightarrow> string" where
  "job_id_of index = ''url_'' @ fmt_04d index"

definition first_embed_path_of :: "string \<Rightarrow> int \<Rightarrow> string" where
  "first_embed_path_of out_root index = path_join (path_join out_root (job_id_of index)) ''first_frame.npy''"

definition url_txt_path_of :: "string \<Rightarrow> int \<Rightarrow> string" where
  "url_txt_path_of out_root index = path_join (path_join out_root (job_id_of index)) ''url.txt''"

definition metadata_txt_path_of :: "string \<Rightarrow> int \<Rightarrow> string" where
  "metadata_txt_path_of out_root index = path_join (path_join out_root (job_id_of index)) ''metadata.txt''"

definition media_type_path_of :: "string \<Rightarrow> int \<Rightarrow> string" where
  "media_type_path_of out_root index = path_join (path_join out_root (job_id_of index)) ''media_type.txt''"

definition clear_artifacts :: "env \<Rightarrow> string \<Rightarrow> int \<Rightarrow> world \<Rightarrow> world" where
  "clear_artifacts env out_root index w =
     remove_if_exists env (media_type_path_of out_root index)
       (remove_if_exists env (metadata_txt_path_of out_root index)
          (remove_if_exists env (url_txt_path_of out_root index)
             (remove_if_exists env (first_embed_path_of out_root index) w)))"

definition write_provenance :: "env \<Rightarrow> string \<Rightarrow> int \<Rightarrow> string \<Rightarrow> row \<Rightarrow> string option \<Rightarrow> world \<Rightarrow> world" where
  "write_provenance env out_root index url row_data url_column w =
     write_text env (metadata_txt_path_of out_root index) (metadata_lines row_data url_column)
       (write_text env (url_txt_path_of out_root index) url w)"

definition process_url :: "env \<Rightarrow> int \<Rightarrow> row \<Rightarrow> string option \<Rightarrow> string \<Rightarrow> bool \<Rightarrow> (string \<times> nat \<times> string option) prog" where
  "process_url env index row_data url_column out_root overwrite w =
     (let url = extract_url row_data url_column
      in if url = [] then (Inr (job_id_of index, 0, Some ''no_url_in_row''), w)
         else
           (let w1 = ensure_dir (path_join out_root (job_id_of index)) w;
                w2 = (if overwrite then clear_artifacts env out_root index w1 else w1);
                w3 = write_provenance env out_root index url row_data url_column w2
            in with_tempdir
                 (in_tempdir env url (job_id_of index)
                    (first_embed_path_of out_root index) (media_type_path_of out_root index))
                 w3))"

section \<open>Batch Orchestrator: \<open>read_urls\<close> and \<open>main\<close>\<close>

definition read_urls :: "env \<Rightarrow> string \<Rightarrow> string option \<Rightarrow> string + row list" where
  "read_urls env csv_path column =
     (case csv_rows env csv_path of
        None \<Rightarrow> Inl ''FileNotFoundError''
      | Some rows \<Rightarrow> Inr (filter (\<lambda>row. extract_url row column \<noteq> []) rows))"

record args =
  arg_input :: string
  arg_column :: string
  arg_out_dir :: string
  arg_start :: int
  arg_end :: "int option"
  arg_overwrite :: bool

text \<open>One printed line per row: ordinal, job id, frames, reason.\<close>

type_synonym report = "nat \<times> string \<times> nat \<times> string option"

text \<open>How \<open>main\<close> ends when no exception escapes it: \<open>sys.exit(code)\<close>, or the summary
  line \<open>Done. OK=.., FAIL=..\<close> after which it returns.\<close>

datatype ending =
    SysExit int
  | Done nat nat "report list"

text \<open>The \<open>for i in range(start, end)\<close> loop, with the counters and the lines printed
  so far; \<open>rows[i]\<close> raises \<open>IndexError\<close> out of range.\<close>

fun run_rows :: "env \<Rightarrow> row list \<Rightarrow> string \<Rightarrow> string \<Rightarrow> bool \<Rightarrow> nat list
                   \<Rightarrow> nat \<times> nat \<times> report list \<Rightarrow> (nat \<times> nat \<times> report list) prog" where
  "run_rows env rows column out_dir overwrite [] acc w = (Inr acc, w)"
| "run_rows env rows column out_dir overwrite (i # rest) acc w =
     (if i < length rows
      then (case process_url env (int i) (rows ! i) (Some column) out_dir overwrite w of
              (Inl e, w') \<Rightarrow> (Inl e, w')
            | (Inr res, w') \<Rightarrow>
                (if truthy (snd (snd res))
                 then run_rows env rows column out_dir overwrite rest
                        (fst acc, Suc (fst (snd acc)),
                         snd (snd acc) @ [(i, fst res, fst (snd res), snd (snd res))]) w'
                 else run_rows env rows column out_dir overwrite rest
                        (Suc (fst acc), fst (snd acc),
                         snd (snd acc) @ [(i, fst res, fst (snd res), None)]) w'))
      else (Inl ''IndexError'', w))"

definition resolved_end :: "args \<Rightarrow> row list \<Rightarrow> int" where
  "resolved_end a rows =
     (case arg_end a of
        None \<Rightarrow> int (length rows)
      | Some e \<Rightarrow> if e > int (length rows) then int (length rows) else e)"

definition resolved_start :: "args \<Rightarrow> int" where
  "resolved_start a = max 0 (arg_start a)"

definition main :: "env \<Rightarrow> args \<Rightarrow> ending prog" where
  "main env a w =
     (if csv_rows env (arg_input a) = None then (Inr (SysExit 1), w)
      else
        (let w1 = ensure_dir (arg_out_dir a) w
         in case read_urls env (arg_input a) (Some (arg_column a)) of
              Inl e \<Rightarrow> (Inl e, w1)
            | Inr rows \<Rightarrow>
                (let end = resolved_end a rows; start = resolved_start a
                 in if start \<ge> end then (Inr (SysExit 1), w1)
                    else
                      (case run_rows env rows (arg_column a) (arg_out_dir a) (arg_overwrite a)
                              [nat start ..< nat end] (0, 0, []) w1 of
                         (Inl e, w') \<Rightarrow> (Inl e, w')
                       | (Inr acc, w') \<Rightarrow> (Inr (Done (fst acc) (fst (snd acc)) (snd (snd acc))), w')))))"


section \<open>Reading a run off the blank world\<close>

text \<open>
  The definitions of this section add nothing to the model: each names a part of what a
  function of the model does, so that the lemmas can say it once.
\<close>

text \<open>The world before anything ran.\<close>

definition blank :: world where
  "blank = \<lparr>files = Map.empty, dirs = {}, tmp_media = None, events = []\<rparr>"

text \<open>What \<^const>\<open>detect_media_type\<close> answers for a URL and the requests it makes for
  that: neither depends on the world it starts from (lemma \<open>detect_media_type_at\<close>).\<close>

definition guess :: "env \<Rightarrow> string \<Rightarrow> string + string" where
  "guess env url = fst (detect_media_type env url blank)"

definition probe_events :: "env \<Rightarrow> string \<Rightarrow> event list" where
  "probe_events env url = events (snd (detect_media_type env url blank))"

text \<open>The same for \<^const>\<open>download_file\<close>: its result, the downloaded file it leaves in
  the temporary directory and its requests (lemma \<open>download_file_at\<close>).\<close>

definition fetched :: "env \<Rightarrow> string \<Rightarrow> string + (string \<times> string option)" where
  "fetched env url = fst (download_file env url blank)"

definition fetched_media :: "env \<Rightarrow> string \<Rightarrow> string option" where
  "fetched_media env url = tmp_media (snd (download_file env url blank))"

definition fetch_events :: "env \<Rightarrow> string \<Rightarrow> event list" where
  "fetch_events env url = events (snd (download_file env url blank))"

text \<open>The world in which \<^const>\<open>process_url\<close> opens the temporary directory, for a
  row that has a URL: job directory made, prior artifacts cleared under \<open>overwrite\<close>,
  provenance written.\<close>

definition provisioned :: "env \<Rightarrow> int \<Rightarrow> row \<Rightarrow> string option \<Rightarrow> string \<Rightarrow> bool \<Rightarrow> world \<Rightarrow> world" where
  "provisioned env index row_data url_column out_root overwrite w =
     write_provenance env out_root index (extract_url row_data url_column) row_data url_column
       (if overwrite
        then clear_artifacts env out_root index (ensure_dir (path_join out_root (job_id_of index)) w)
        else ensure_dir (path_join out_root (job_id_of index)) w)"

text \<open>The \<open>os.remove\<close> calls of the cleanup, in the order of the source: one for each
  of the four artifacts that exists.\<close>

definition removals :: "string \<Rightarrow> int \<Rightarrow> world \<Rightarrow> event list" where
  "removals out_root index w =
     concat (map (\<lambda>p. if files w p \<noteq> None then [OsRemove p] else [])
       [first_embed_path_of out_root index, url_txt_path_of out_root index,
        metadata_txt_path_of out_root index, media_type_path_of out_root index])"

section \<open>Example inputs\<close>

text \<open>The row of the spec's end-to-end case A, and a row whose URL cell is blank.\<close>

definition row_a :: row where
  "row_a = [(''tvc'', Some ''https://x/a.jpg''), (''id'', Some ''7'')]"

definition row_empty :: row where
  "row_empty = [(''tvc'', Some ''  ''), (''id'', Some ''6'')]"

text \<open>An input file \<open>in.csv\<close> with these two rows, the blank one first.\<close>

definition example_csv :: "string \<Rightarrow> row list option" where
  "example_csv p = (if p = ''in.csv'' then Some [row_empty, row_a] else None)"

text \<open>The primary transport raises \<open>boom\<close> on every URL; the \<open>urllib\<close> transport would
  deliver; the HEAD probe fails.\<close>

definition env_down :: env where
  "env_down =
     \<lparr>requests_head = (\<lambda>u. Inl ''unreachable''),
      requests_get = (\<lambda>u. GetRaised ''boom''),
      urlopen = (\<lambda>u. Inr ''bytes''),
      write_error = (\<lambda>p. False),
      remove_error = (\<lambda>p. False),
      image_open = (\<lambda>d. Inl ''cannot identify image file''),
      video_capture = (\<lambda>d. NotOpened),
      embed_image_clip_to_npy = (\<lambda>still. Inl ''no model''),
      csv_rows = example_csv\<rparr>"

text \<open>The same, with a HEAD probe that answers \<open>text/html\<close>, with a job directory in
  which no file can be opened for writing, and with one in which no file can be
  removed.\<close>

definition env_html :: env where
  "env_html = env_down\<lparr>requests_head := (\<lambda>u. Inr (Some ''text/html''))\<rparr>"

definition env_readonly :: env where
  "env_readonly = env_down\<lparr>write_error := (\<lambda>p. True)\<rparr>"

definition env_sticky :: env where
  "env_sticky = env_down\<lparr>remove_error := (\<lambda>p. True)\<rparr>"

text \<open>Every stage works and the server sends a PNG image.\<close>

definition env_image :: env where
  "env_image =
     \<lparr>requests_head = (\<lambda>u. Inl ''unreachable''),
      requests_get = (\<lambda>u. GetHeaders (Some ''image/png'') (CopyDone ''PNG'')),
      urlopen = (\<lambda>u. Inr ''bytes''),
      write_error = (\<lambda>p. False),
      remove_error = (\<lambda>p. False),
      image_open = (\<lambda>d. Inr ''still''),
      video_capture = (\<lambda>d. FirstFrame ''frame''),
      embed_image_clip_to_npy = (\<lambda>still. Inr ''vector''),
      csv_rows = example_csv\<rparr>"




text \<open>Job 3 as a first run on \<^const>\<open>row_a\<close> leaves it when every stage works: complete,
  with all four artifacts.\<close>

definition complete_job :: world where
  "complete_job = snd (process_url env_image 3 row_a (Some ''tvc'') ''out'' False blank)"

text \<open>The command line \<open>--input in.csv --out_dir out\<close>, and the same with
  \<open>--start 5\<close>.\<close>

definition args_all :: args where
  "args_all =
     \<lparr>arg_input = ''in.csv'', arg_column = ''tvc'', arg_out_dir = ''out'',
      arg_start = 0, arg_end = None, arg_overwrite = False\<rparr>"


section \<open>Basic facts\<close>

lemma record_event_simps [simp]:
  "files (record_event ev w) = files w"
  "dirs (record_event ev w) = dirs w"
  "tmp_media (record_event ev w) = tmp_media w"
  "events (record_event ev w) = events w @ [ev]"
  by (simp_all add: record_event_def)

lemma blank_simps [simp]:
  "files blank = Map.empty" "dirs blank = {}" "tmp_media blank = None" "events blank = []"
  by (simp_all add: blank_def)

lemma detect_media_type_at:
  "detect_media_type env url w = (guess env url, w\<lparr>events := events w @ probe_events env url\<rparr>)"
  by (simp add: guess_def probe_events_def detect_media_type_def ret_def and_then_def
        try_except_def head_probe_def record_event_def Let_def split: sum.splits option.splits)

lemma guess_cases: "guess env url = Inr ''image'' \<or> guess env url = Inr ''video''"
  by (simp add: guess_def detect_media_type_def ret_def and_then_def try_except_def
        head_probe_def Let_def split: sum.splits option.splits)

lemma probe_events_eq:
  "probe_events env url =
     (if has_extension image_exts (path_part url) \<or> has_extension video_exts (path_part url)
      then [] else [HttpHead url])"
  by (simp add: probe_events_def detect_media_type_def ret_def and_then_def try_except_def
        head_probe_def Let_def split: sum.splits option.splits)

text \<open>Every path through \<^const>\<open>download_file\<close>, by what the primary transport does.\<close>

lemma download_file_run:
  "download_file env url w =
     (case requests_get env url of
        GetRaised e \<Rightarrow>
          (case guess env url of
             Inl x \<Rightarrow> (Inl x, w\<lparr>events := events w @ HttpGet url # probe_events env url\<rparr>)
           | Inr t \<Rightarrow> (Inr (t, Some e), w\<lparr>events := events w @ HttpGet url # probe_events env url\<rparr>))
      | GetHeaders h copy \<Rightarrow>
          (if says_image (header_lower h) \<or> says_video (header_lower h)
           then (case copy of
                   CopyDone bytes \<Rightarrow>
                     (Inr (if says_image (header_lower h) then ''image'' else ''video'', None),
                      w\<lparr>tmp_media := Some bytes, events := events w @ [HttpGet url]\<rparr>)
                 | CopyRaised part e \<Rightarrow>
                     (case guess env url of
                        Inl x \<Rightarrow>
                          (Inl x, w\<lparr>tmp_media := part,
                                     events := events w @ HttpGet url # probe_events env url\<rparr>)
                      | Inr t \<Rightarrow>
                          (Inr (t, Some e),
                           w\<lparr>tmp_media := part,
                              events := events w @ HttpGet url # probe_events env url\<rparr>)))
           else (case guess env url of
                   Inl x \<Rightarrow>
                     (Inl x, w\<lparr>events := events w @ HttpGet url # probe_events env url
                                                  @ probe_events env url\<rparr>)
                 | Inr t \<Rightarrow>
                     (case copy of
                        CopyDone bytes \<Rightarrow>
                          (Inr (t, None),
                           w\<lparr>tmp_media := Some bytes,
                              events := events w @ HttpGet url # probe_events env url\<rparr>)
                      | CopyRaised part e \<Rightarrow>
                          (Inr (t, Some e),
                           w\<lparr>tmp_media := part,
                              events := events w @ HttpGet url # probe_events env url
                                                   @ probe_events env url\<rparr>)))))"
  using guess_cases [of env url]
  by (auto simp: download_file_def download_with_requests_def requests_block_def
        ret_def and_then_def try_except_def Let_def detect_media_type_at record_event_def
        split: get_result.splits copy_result.splits)

lemma download_file_at:
  "tmp_media w = None \<Longrightarrow>
   download_file env url w =
     (fetched env url, w\<lparr>tmp_media := fetched_media env url, events := events w @ fetch_events env url\<rparr>)"
  using guess_cases [of env url]
  by (auto simp: fetched_def fetched_media_def fetch_events_def download_file_run
        split: get_result.splits copy_result.splits)

lemma fetched_cases:
  "\<exists>t err. fetched env url = Inr (t, err) \<and> (t = ''image'' \<or> t = ''video'')"
  using guess_cases [of env url]
  by (auto simp: fetched_def download_file_run split: get_result.splits copy_result.splits)

lemma fetch_events_shape:
  "\<exists>es. fetch_events env url = HttpGet url # es \<and> (\<forall>e \<in> set es. e = HttpHead url)"
  using guess_cases [of env url]
  by (auto simp: fetch_events_def download_file_run probe_events_eq split: get_result.splits copy_result.splits)

lemma ensure_dir_simps [simp]:
  "files (ensure_dir p w) = files w"
  "dirs (ensure_dir p w) = insert p (dirs w)"
  "tmp_media (ensure_dir p w) = tmp_media w"
  "events (ensure_dir p w) = events w @ [MakeDirs p]"
  by (simp_all add: ensure_dir_def)

lemma remove_if_exists_simps [simp]:
  "files (remove_if_exists env p w) =
     (if files w p \<noteq> None \<and> \<not> remove_error env p then (files w)(p := None) else files w)"
  "dirs (remove_if_exists env p w) = dirs w"
  "tmp_media (remove_if_exists env p w) = tmp_media w"
  "events (remove_if_exists env p w) = events w @ (if files w p \<noteq> None then [OsRemove p] else [])"
  by (simp_all add: remove_if_exists_def Let_def)

lemma write_text_simps [simp]:
  "files (write_text env p c w) = (if write_error env p then files w else (files w)(p \<mapsto> c))"
  "dirs (write_text env p c w) = dirs w"
  "tmp_media (write_text env p c w) = tmp_media w"
  "events (write_text env p c w) = events w @ [OpenWrite p c]"
  by (simp_all add: write_text_def Let_def)

lemma artifact_paths_distinct:
  "first_embed_path_of out i \<noteq> url_txt_path_of out i"
  "first_embed_path_of out i \<noteq> metadata_txt_path_of out i"
  "first_embed_path_of out i \<noteq> media_type_path_of out i"
  "url_txt_path_of out i \<noteq> metadata_txt_path_of out i"
  "url_txt_path_of out i \<noteq> media_type_path_of out i"
  "metadata_txt_path_of out i \<noteq> media_type_path_of out i"
  by (simp_all add: first_embed_path_of_def url_txt_path_of_def metadata_txt_path_of_def
        media_type_path_of_def path_join_def)

lemma download_file_fst: "fst (download_file env url w) = fetched env url"
  using guess_cases [of env url]
  by (auto simp: fetched_def download_file_run split: get_result.splits copy_result.splits)

lemma process_url_run:
  assumes "extract_url row_data url_column \<noteq> []"
  shows "process_url env index row_data url_column out_root overwrite w =
     (let url = extract_url row_data url_column;
          w3 = provisioned env index row_data url_column out_root overwrite w;
          w4 = w3\<lparr>tmp_media := fetched_media env url, events := events w3 @ fetch_events env url\<rparr>
      in case fetched env url of
           Inl x \<Rightarrow> (Inl x, w4\<lparr>tmp_media := None\<rparr>)
         | Inr res \<Rightarrow>
             if truthy (snd res)
             then (Inr (job_id_of index, 0, Some (''download_error: '' @ or_empty (snd res))),
                   w4\<lparr>tmp_media := None\<rparr>)
             else (fst (after_download env (job_id_of index) (first_embed_path_of out_root index)
                          (media_type_path_of out_root index) (fst res) w4),
                   (snd (after_download env (job_id_of index) (first_embed_path_of out_root index)
                          (media_type_path_of out_root index) (fst res) w4))\<lparr>tmp_media := None\<rparr>))"
  using assms
  by (simp add: process_url_def provisioned_def Let_def with_tempdir_def in_tempdir_def and_then_def
        download_file_at ret_def split: sum.splits prod.splits)

lemma after_download_files:
  "files (snd (after_download env jid ep mp t w)) =
     (case extract_frame env t (tmp_media w) of
        Inl reason \<Rightarrow> (if write_error env mp then files w else (files w)(mp \<mapsto> t))
      | Inr still \<Rightarrow>
          (case embed_image_clip_to_npy env still of
             Inl e \<Rightarrow> (if write_error env mp then files w else (files w)(mp \<mapsto> t))
           | Inr v \<Rightarrow> (if write_error env mp then files w else (files w)(mp \<mapsto> t))(ep \<mapsto> v)))"
  by (simp add: after_download_def Let_def split: sum.splits)

lemma after_download_events:
  "events (snd (after_download env jid ep mp t w)) =
     events w @ OpenWrite mp t #
       (case extract_frame env t (tmp_media w) of Inl reason \<Rightarrow> [] | Inr still \<Rightarrow> [EmbedCall ep])"
  by (simp add: after_download_def Let_def split: sum.splits)

lemma after_download_dirs: "dirs (snd (after_download env jid ep mp t w)) = dirs w"
  by (simp add: after_download_def Let_def split: sum.splits)

lemma after_download_fst:
  "fst (after_download env jid ep mp t w) =
     Inr (case extract_frame env t (tmp_media w) of
            Inl reason \<Rightarrow> (jid, 0, Some reason)
          | Inr still \<Rightarrow>
              (case embed_image_clip_to_npy env still of
                 Inl e \<Rightarrow> (jid, 1, Some (''embed_error: '' @ e))
               | Inr v \<Rightarrow> (jid, 1, None)))"
  by (simp add: after_download_def Let_def split: sum.splits)

lemma provisioned_files:
  "files (provisioned env index row_data url_column out_root overwrite w) =
     (let f2 = files (if overwrite then clear_artifacts env out_root index w else w);
          f3 = (if write_error env (url_txt_path_of out_root index) then f2
                else f2(url_txt_path_of out_root index \<mapsto> extract_url row_data url_column))
      in if write_error env (metadata_txt_path_of out_root index) then f3
         else f3(metadata_txt_path_of out_root index \<mapsto> metadata_lines row_data url_column))"
  by (simp add: provisioned_def write_provenance_def clear_artifacts_def Let_def)

lemma clear_artifacts_events:
  "events (clear_artifacts env out_root index w) = events w @ removals out_root index w"
  using artifact_paths_distinct [of out_root index]
  by (auto simp: clear_artifacts_def removals_def)

lemma clear_artifacts_files:
  "files (clear_artifacts env out_root index w) p =
     (if p \<in> {first_embed_path_of out_root index, url_txt_path_of out_root index,
               metadata_txt_path_of out_root index, media_type_path_of out_root index}
         \<and> \<not> remove_error env p
      then None else files w p)"
  using artifact_paths_distinct [of out_root index]
  by (auto simp: clear_artifacts_def)

lemma clear_artifacts_ensure_dir:
  "files (clear_artifacts env out_root index (ensure_dir d w)) = files (clear_artifacts env out_root index w)"
  "removals out_root index (ensure_dir d w) = removals out_root index w"
  by (simp_all add: clear_artifacts_def removals_def fun_eq_iff)

lemma provisioned_events:
  "events (provisioned env index row_data url_column out_root overwrite w) =
     events w @ MakeDirs (path_join out_root (job_id_of index))
       # (if overwrite then removals out_root index w else [])
       @ [OpenWrite (url_txt_path_of out_root index) (extract_url row_data url_column),
          OpenWrite (metadata_txt_path_of out_root index) (metadata_lines row_data url_column)]"
  by (simp add: provisioned_def write_provenance_def clear_artifacts_events clear_artifacts_ensure_dir)

lemma provisioned_files_at:
  "files (provisioned env index row_data url_column out_root overwrite w) p =
     (if p = metadata_txt_path_of out_root index \<and> \<not> write_error env p
      then Some (metadata_lines row_data url_column)
      else if p = url_txt_path_of out_root index \<and> \<not> write_error env p
      then Some (extract_url row_data url_column)
      else files (if overwrite then clear_artifacts env out_root index w else w) p)"
  using artifact_paths_distinct [of out_root index]
  by (auto simp: provisioned_def write_provenance_def clear_artifacts_ensure_dir)

lemma process_url_events:
  assumes "extract_url row_data url_column \<noteq> []"
  shows "\<exists>rest. events (snd (process_url env index row_data url_column out_root overwrite w)) =
     events w @ MakeDirs (path_join out_root (job_id_of index))
       # (if overwrite then removals out_root index w else [])
       @ OpenWrite (url_txt_path_of out_root index) (extract_url row_data url_column)
       # OpenWrite (metadata_txt_path_of out_root index) (metadata_lines row_data url_column)
       # HttpGet (extract_url row_data url_column) # rest
     \<and> (\<forall>e \<in> set rest. \<not> is_remove e)"
proof -
  obtain es where es: "fetch_events env (extract_url row_data url_column) = HttpGet (extract_url row_data url_column) # es"
    and hd: "\<forall>e \<in> set es. e = HttpHead (extract_url row_data url_column)"
    using fetch_events_shape by blast
  obtain t err where f: "fetched env (extract_url row_data url_column) = Inr (t, err)"
    using fetched_cases by blast
  show ?thesis
    using hd
    by (auto simp: process_url_run [OF assms] Let_def f es provisioned_events after_download_events
          is_remove_def split: sum.splits)
qed

lemma process_url_files_at:
  assumes "extract_url row_data url_column \<noteq> []"
  shows "files (snd (process_url env index row_data url_column out_root overwrite w)) p =
     (let url = extract_url row_data url_column;
          f3 = files (provisioned env index row_data url_column out_root overwrite w)
      in case fetched env url of
           Inl x \<Rightarrow> f3 p
         | Inr res \<Rightarrow>
             if truthy (snd res) then f3 p
             else (case extract_frame env (fst res) (fetched_media env url) of
                     Inl reason \<Rightarrow>
                       (if p = media_type_path_of out_root index \<and> \<not> write_error env p
                        then Some (fst res) else f3 p)
                   | Inr still \<Rightarrow>
                       (case embed_image_clip_to_npy env still of
                          Inl e \<Rightarrow>
                            (if p = media_type_path_of out_root index \<and> \<not> write_error env p
                             then Some (fst res) else f3 p)
                        | Inr v \<Rightarrow>
                            (if p = first_embed_path_of out_root index then Some v
                             else if p = media_type_path_of out_root index \<and> \<not> write_error env p
                             then Some (fst res) else f3 p))))"
  by (auto simp: process_url_run [OF assms] Let_def after_download_files split: sum.splits)

lemma process_url_fst:
  assumes "extract_url row_data url_column \<noteq> []"
  shows "fst (process_url env index row_data url_column out_root overwrite w) =
     (let url = extract_url row_data url_column
      in case fetched env url of
           Inl x \<Rightarrow> Inl x
         | Inr res \<Rightarrow>
             if truthy (snd res)
             then Inr (job_id_of index, 0, Some (''download_error: '' @ or_empty (snd res)))
             else Inr (case extract_frame env (fst res) (fetched_media env url) of
                    Inl reason \<Rightarrow> (job_id_of index, 0, Some reason)
                  | Inr still \<Rightarrow>
                      (case embed_image_clip_to_npy env still of
                         Inl e \<Rightarrow> (job_id_of index, 1, Some (''embed_error: '' @ e))
                       | Inr v \<Rightarrow> (job_id_of index, 1, None))))"
  by (auto simp: process_url_run [OF assms] Let_def after_download_fst split: sum.splits)

lemma removals_not_network: "\<forall>e \<in> set (removals out_root index w). \<not> is_network e"
  by (auto simp: removals_def is_network_def)

lemma removals_are_removes: "\<forall>e \<in> set (removals out_root index w). is_remove e"
  by (auto simp: removals_def is_remove_def)

lemma process_url_events_eq:
  assumes "extract_url row_data url_column \<noteq> []"
  shows "events (snd (process_url env index row_data url_column out_root overwrite w)) =
     events (provisioned env index row_data url_column out_root overwrite w)
       @ fetch_events env (extract_url row_data url_column)
       @ (case fetched env (extract_url row_data url_column) of
            Inl x \<Rightarrow> []
          | Inr res \<Rightarrow>
              if truthy (snd res) then []
              else OpenWrite (media_type_path_of out_root index) (fst res)
                     # (case extract_frame env (fst res) (fetched_media env (extract_url row_data url_column)) of
                          Inl reason \<Rightarrow> []
                        | Inr still \<Rightarrow> [EmbedCall (first_embed_path_of out_root index)]))"
  by (auto simp: process_url_run [OF assms] Let_def after_download_events split: sum.splits)

lemma fetch_events_network: "\<forall>e \<in> set (fetch_events env url). is_network e"
proof -
  obtain es where "fetch_events env url = HttpGet url # es" and "\<forall>e \<in> set es. e = HttpHead url"
    using fetch_events_shape [of env url] by blast
  then show ?thesis by (auto simp: is_network_def)
qed



lemma process_url_returns:
  "\<exists>jid n reason. fst (process_url env index row_data url_column out_root overwrite w) = Inr (jid, n, reason)"
proof (cases "extract_url row_data url_column = []")
  case True
  then show ?thesis by (simp add: process_url_def)
next
  case nz: False
  obtain t err where f: "fetched env (extract_url row_data url_column) = Inr (t, err)"
    using fetched_cases by blast
  show ?thesis
    by (simp add: process_url_fst [OF nz] Let_def f split: sum.splits)
qed

lemma process_url_reason:
  assumes nz: "extract_url row_data url_column \<noteq> []"
  shows "snd (snd (projr (fst (process_url env index row_data url_column out_root overwrite w))))
           \<noteq> Some ''no_url_in_row''"
proof -
  obtain t err where f: "fetched env (extract_url row_data url_column) = Inr (t, err)"
    using fetched_cases by blast
  show ?thesis
    by (simp add: process_url_fst [OF nz] Let_def f extract_frame_def
          split: sum.splits video_result.splits)
qed


lemma read_urls_have_url:
  "read_urls env csv_path column = Inr rows \<Longrightarrow> \<forall>row \<in> set rows. extract_url row column \<noteq> []"
  by (auto simp: read_urls_def split: option.splits)

lemma resolved_end_le: "resolved_end a rows \<le> int (length rows)"
  by (simp add: resolved_end_def split: option.splits)


lemma run_rows_reasons:
  assumes "\<forall>i \<in> set idx. i < length rows"
    and "\<forall>row \<in> set rows. extract_url row (Some column) \<noteq> []"
    and "\<forall>l \<in> set (snd (snd acc)). snd (snd (snd l)) \<noteq> Some ''no_url_in_row''"
    and "run_rows env rows column out_dir overwrite idx acc w = (Inr (ok, fail, lines), w')"
  shows "\<forall>l \<in> set lines. snd (snd (snd l)) \<noteq> Some ''no_url_in_row''"
  using assms
proof (induction idx arbitrary: acc w)
  case Nil
  then show ?case by simp
next
  case (Cons i rest)
  have inb: "i < length rows" using Cons.prems(1) by simp
  then have nz: "extract_url (rows ! i) (Some column) \<noteq> []"
    using Cons.prems(2) by simp
  obtain jid n reason where r:
    "fst (process_url env (int i) (rows ! i) (Some column) out_dir overwrite w) = Inr (jid, n, reason)"
    using process_url_returns by blast
  obtain w1 where p:
    "process_url env (int i) (rows ! i) (Some column) out_dir overwrite w = (Inr (jid, n, reason), w1)"
    using r by (cases "process_url env (int i) (rows ! i) (Some column) out_dir overwrite w") auto
  have ne: "reason \<noteq> Some ''no_url_in_row''"
    using process_url_reason [OF nz, of env "int i" out_dir overwrite w] r by simp
  show ?case
  proof (cases "truthy reason")
    case True
    have "run_rows env rows column out_dir overwrite rest
         (fst acc, Suc (fst (snd acc)), snd (snd acc) @ [(i, jid, n, reason)]) w1 = (Inr (ok, fail, lines), w')"
      using Cons.prems(4) inb p True by simp
    then show ?thesis
      using Cons.IH [of "(fst acc, Suc (fst (snd acc)), snd (snd acc) @ [(i, jid, n, reason)])" w1]
        Cons.prems(1,2,3) ne by simp
  next
    case False
    have "run_rows env rows column out_dir overwrite rest
         (Suc (fst acc), fst (snd acc), snd (snd acc) @ [(i, jid, n, None)]) w1 = (Inr (ok, fail, lines), w')"
      using Cons.prems(4) inb p False by simp
    then show ?thesis
      using Cons.IH [of "(Suc (fst acc), fst (snd acc), snd (snd acc) @ [(i, jid, n, None)])" w1]
        Cons.prems(1,2,3) by simp
  qed
qed
section \<open>The claims\<close>

text \<open>
  C1 (the code departs from the claim). The claim: when the primary transport raises,
  the Fetcher falls back to the secondary transport, and only if that fails too returns
  the offline guess with an error. The code: the handler of the first \<open>try\<close> returns at
  once, so the \<open>urllib\<close> statement is never reached. Here the primary transport raises
  \<open>boom\<close> and \<open>urllib\<close> would deliver \<open>bytes\<close>; \<open>download_file\<close> returns the guess with
  \<open>boom\<close>, having made one request, the primary one, and written no file.
\<close>

theorem download_file_skips_urllib:
  "requests_get env_down ''https://x/a.mp4'' = GetRaised ''boom''
   \<and> urlopen env_down ''https://x/a.mp4'' = Inr ''bytes''
   \<and> download_file env_down ''https://x/a.mp4'' blank
       = (Inr (''video'', Some ''boom''), blank\<lparr>events := [HttpGet ''https://x/a.mp4'']\<rparr>)"
proof -
  have a: "\<not> has_extension image_exts (path_part ''https://x/a.mp4'')" by code_simp
  have c: "has_extension video_exts (path_part ''https://x/a.mp4'')" by code_simp
  have g: "guess env_down ''https://x/a.mp4'' = Inr ''video''"
    using a c by (simp add: guess_def detect_media_type_def ret_def)
  have p: "probe_events env_down ''https://x/a.mp4'' = []"
    using a c by (simp add: probe_events_eq)
  have r: "requests_get env_down ''https://x/a.mp4'' = GetRaised ''boom''"
    by (simp add: env_down_def)
  have u: "urlopen env_down ''https://x/a.mp4'' = Inr ''bytes''"
    by (simp add: env_down_def)
  show ?thesis
    by (simp add: download_file_run g p r u)
qed




text \<open>
  C4 (amended). For a row that has a URL, \<open>process_url\<close> opens \<open>url.txt\<close> and then
  \<open>metadata.txt\<close> for writing before its first network request, the GET of the fetch;
  nothing before these two writes is a network request. A write that fails is swallowed
  and the row goes on to the fetch. Each of the two files whose write does not fail
  holds the URL, respectively the metadata lines, when \<open>process_url\<close> returns, whatever
  the later stages did.
\<close>

theorem provenance_before_network:
  assumes "extract_url row_data url_column \<noteq> []"
  shows "(\<exists>pre post.
            events (snd (process_url env index row_data url_column out_root overwrite w)) =
              events w @ pre
                @ OpenWrite (url_txt_path_of out_root index) (extract_url row_data url_column)
                # OpenWrite (metadata_txt_path_of out_root index) (metadata_lines row_data url_column)
                # HttpGet (extract_url row_data url_column) # post
            \<and> (\<forall>e \<in> set pre. \<not> is_network e))
         \<and> (\<not> write_error env (url_txt_path_of out_root index) \<longrightarrow>
              files (snd (process_url env index row_data url_column out_root overwrite w))
                (url_txt_path_of out_root index) = Some (extract_url row_data url_column))
         \<and> (\<not> write_error env (metadata_txt_path_of out_root index) \<longrightarrow>
              files (snd (process_url env index row_data url_column out_root overwrite w))
                (metadata_txt_path_of out_root index) = Some (metadata_lines row_data url_column))"
proof -
  obtain rest where ev:
    "events (snd (process_url env index row_data url_column out_root overwrite w)) =
       events w @ MakeDirs (path_join out_root (job_id_of index))
         # (if overwrite then removals out_root index w else [])
         @ OpenWrite (url_txt_path_of out_root index) (extract_url row_data url_column)
         # OpenWrite (metadata_txt_path_of out_root index) (metadata_lines row_data url_column)
         # HttpGet (extract_url row_data url_column) # rest"
    using process_url_events [OF assms] by blast
  have pre: "\<forall>e \<in> set (MakeDirs (path_join out_root (job_id_of index))
                 # (if overwrite then removals out_root index w else [])). \<not> is_network e"
    using removals_not_network [of out_root index w] by (simp add: is_network_def)
  have order: "\<exists>pre post.
            events (snd (process_url env index row_data url_column out_root overwrite w)) =
              events w @ pre
                @ OpenWrite (url_txt_path_of out_root index) (extract_url row_data url_column)
                # OpenWrite (metadata_txt_path_of out_root index) (metadata_lines row_data url_column)
                # HttpGet (extract_url row_data url_column) # post
            \<and> (\<forall>e \<in> set pre. \<not> is_network e)"
    using ev pre by (metis append_Cons)
  obtain t err where f: "fetched env (extract_url row_data url_column) = Inr (t, err)"
    using fetched_cases by blast
  have u: "\<not> write_error env (url_txt_path_of out_root index) \<longrightarrow>
              files (snd (process_url env index row_data url_column out_root overwrite w))
                (url_txt_path_of out_root index) = Some (extract_url row_data url_column)"
    using artifact_paths_distinct [of out_root index]
    by (simp add: process_url_files_at [OF assms] Let_def f provisioned_files_at split: sum.splits)
  have m: "\<not> write_error env (metadata_txt_path_of out_root index) \<longrightarrow>
              files (snd (process_url env index row_data url_column out_root overwrite w))
                (metadata_txt_path_of out_root index) = Some (metadata_lines row_data url_column)"
    using artifact_paths_distinct [of out_root index]
    by (simp add: process_url_files_at [OF assms] Let_def f provisioned_files_at split: sum.splits)
  show ?thesis using order u m by blast
qed

theorem provenance_before_network_witness:
  "extract_url row_a (Some ''tvc'') \<noteq> []
   \<and> (\<exists>pre post.
         events (snd (process_url env_down 3 row_a (Some ''tvc'') ''out'' False blank)) =
           events blank @ pre
             @ OpenWrite (url_txt_path_of ''out'' 3) (extract_url row_a (Some ''tvc''))
             # OpenWrite (metadata_txt_path_of ''out'' 3) (metadata_lines row_a (Some ''tvc''))
             # HttpGet (extract_url row_a (Some ''tvc'')) # post
         \<and> (\<forall>e \<in> set pre. \<not> is_network e))
   \<and> fst (process_url env_down 3 row_a (Some ''tvc'') ''out'' False blank)
       = Inr (''url_0003'', 0, Some ''download_error: boom'')
   \<and> files (snd (process_url env_down 3 row_a (Some ''tvc'') ''out'' False blank))
       (url_txt_path_of ''out'' 3) = Some (extract_url row_a (Some ''tvc''))
   \<and> files (snd (process_url env_down 3 row_a (Some ''tvc'') ''out'' False blank))
       (metadata_txt_path_of ''out'' 3) = Some (metadata_lines row_a (Some ''tvc''))"
proof -
  have h: "extract_url row_a (Some ''tvc'') \<noteq> []" by code_simp
  have r: "fst (process_url env_down 3 row_a (Some ''tvc'') ''out'' False blank)
       = Inr (''url_0003'', 0, Some ''download_error: boom'')" by code_simp
  have u: "\<not> write_error env_down (url_txt_path_of ''out'' 3)"
    and m: "\<not> write_error env_down (metadata_txt_path_of ''out'' 3)"
    by (simp_all add: env_down_def)
  show ?thesis
    using provenance_before_network [OF h, of env_down 3 "''out''" False blank] h r u m
    by blast
qed

text \<open>The claim as stated fails when the job directory refuses the writes: the fetch is
  attempted all the same, and neither file exists afterwards.\<close>

theorem fetch_without_provenance:
  "extract_url row_a (Some ''tvc'') = ''https://x/a.jpg''
   \<and> HttpGet ''https://x/a.jpg''
       \<in> set (events (snd (process_url env_readonly 3 row_a (Some ''tvc'') ''out'' False blank)))
   \<and> files (snd (process_url env_readonly 3 row_a (Some ''tvc'') ''out'' False blank))
       ''out/url_0003/url.txt'' = None
   \<and> files (snd (process_url env_readonly 3 row_a (Some ''tvc'') ''out'' False blank))
       ''out/url_0003/metadata.txt'' = None"
  by code_simp

text \<open>
  C6. \<open>detect_media_type\<close> and \<open>download_file\<close> return a value (\<open>Inr\<close>) on every URL, in
  every environment and from every world: no exception (\<open>Inl\<close>) reaches their caller, and
  the media type returned is \<open>image\<close> or \<open>video\<close>. When the path has no known extension
  and the probe raises or its content type names neither image nor video,
  classification returns \<open>video\<close>. When the primary transport raises, before the
  headers or during the copy, \<open>download_file\<close> returns the text of the exception paired
  with the media type \<open>detect_media_type\<close> gives for the URL.
\<close>

theorem classification_and_fetch_return:
  "(\<exists>t. fst (detect_media_type env url w) = Inr t \<and> (t = ''image'' \<or> t = ''video''))
   \<and> (\<exists>t err. fst (download_file env url w) = Inr (t, err) \<and> (t = ''image'' \<or> t = ''video''))
   \<and> (\<not> has_extension image_exts (path_part url) \<and> \<not> has_extension video_exts (path_part url)
        \<and> (\<forall>hd. requests_head env url = Inr hd \<longrightarrow>
               \<not> says_image (header_lower hd) \<and> \<not> says_video (header_lower hd))
      \<longrightarrow> fst (detect_media_type env url w) = Inr ''video'')
   \<and> (requests_get env url = GetRaised e \<or> requests_get env url = GetHeaders h (CopyRaised part e)
      \<longrightarrow> (\<exists>t. fst (detect_media_type env url w) = Inr t
               \<and> fst (download_file env url w) = Inr (t, Some e)))"
proof -
  have a: "\<exists>t. fst (detect_media_type env url w) = Inr t \<and> (t = ''image'' \<or> t = ''video'')"
    using guess_cases [of env url] by (auto simp: detect_media_type_at)
  have b: "\<exists>t err. fst (download_file env url w) = Inr (t, err) \<and> (t = ''image'' \<or> t = ''video'')"
    using fetched_cases [of env url] by (simp add: download_file_fst)
  have c: "\<not> has_extension image_exts (path_part url) \<and> \<not> has_extension video_exts (path_part url)
        \<and> (\<forall>hd. requests_head env url = Inr hd \<longrightarrow>
               \<not> says_image (header_lower hd) \<and> \<not> says_video (header_lower hd))
      \<longrightarrow> fst (detect_media_type env url w) = Inr ''video''"
    by (auto simp: detect_media_type_def ret_def and_then_def try_except_def head_probe_def Let_def
          split: sum.splits option.splits)
  have d: "requests_get env url = GetRaised e \<or> requests_get env url = GetHeaders h (CopyRaised part e)
      \<longrightarrow> (\<exists>t. fst (detect_media_type env url w) = Inr t
               \<and> fst (download_file env url w) = Inr (t, Some e))"
    using guess_cases [of env url]
    by (auto simp: download_file_run detect_media_type_at)
  show ?thesis using a b c d by blast
qed


theorem classification_and_fetch_return_witness:
  "\<not> has_extension image_exts (path_part ''https://x/a'')
   \<and> \<not> has_extension video_exts (path_part ''https://x/a'')
   \<and> requests_head env_down ''https://x/a'' = Inl ''unreachable''
   \<and> fst (detect_media_type env_down ''https://x/a'' blank) = Inr ''video''
   \<and> requests_head env_html ''https://x/a'' = Inr (Some ''text/html'')
   \<and> fst (detect_media_type env_html ''https://x/a'' blank) = Inr ''video''
   \<and> requests_get env_down ''https://x/a'' = GetRaised ''boom''
   \<and> fst (download_file env_down ''https://x/a'' blank) = Inr (''video'', Some ''boom'')"
proof -
  have a: "\<not> has_extension image_exts (path_part ''https://x/a'')" by code_simp
  have b: "\<not> has_extension video_exts (path_part ''https://x/a'')" by code_simp
  have p: "requests_head env_down ''https://x/a'' = Inl ''unreachable''"
    by (simp add: env_down_def)
  have q: "requests_head env_html ''https://x/a'' = Inr (Some ''text/html'')"
    by (simp add: env_html_def env_down_def)
  have q1: "\<not> says_image (header_lower (Some ''text/html''))" by code_simp
  have q2: "\<not> says_video (header_lower (Some ''text/html''))" by code_simp
  have g: "requests_get env_down ''https://x/a'' = GetRaised ''boom''"
    by (simp add: env_down_def)
  have d1: "fst (detect_media_type env_down ''https://x/a'' blank) = Inr ''video''"
    using classification_and_fetch_return [of env_down "''https://x/a''" blank] a b p by simp
  have d2: "fst (detect_media_type env_html ''https://x/a'' blank) = Inr ''video''"
    using classification_and_fetch_return [of env_html "''https://x/a''" blank] a b q q1 q2 by simp
  have f: "fst (download_file env_down ''https://x/a'' blank) = Inr (''video'', Some ''boom'')"
    using classification_and_fetch_return [of env_down "''https://x/a''" blank "''boom''"] g d1
    by auto
  show ?thesis using a b p q g d1 d2 f by blast
qed







text \<open>
  C10 (amended). If \<open>download_file\<close> returns an error whose text is not empty,
  \<open>process_url\<close> returns the reason \<open>download_error:\<close> followed by that text, with zero
  frames. Up to then it has opened only \<open>url.txt\<close> and \<open>metadata.txt\<close> for writing, and
  everything after these two writes is a network request: \<open>media_type.txt\<close> and the
  embedding artifact are not written although a media type was computed. The two paths
  are as the start of the row left them: as they were without \<open>overwrite\<close>, as the
  cleanup left them with it.
\<close>

theorem download_error_stops_row:
  assumes "extract_url row_data url_column = url" and "url \<noteq> []"
    and "fst (download_file env url w0) = Inr (t, Some e)" and "e \<noteq> []"
  shows "fst (process_url env index row_data url_column out_root overwrite w)
           = Inr (job_id_of index, 0, Some (''download_error: '' @ e))
         \<and> (\<exists>net.
               events (snd (process_url env index row_data url_column out_root overwrite w)) =
                 events w @ MakeDirs (path_join out_root (job_id_of index))
                   # (if overwrite then removals out_root index w else [])
                   @ OpenWrite (url_txt_path_of out_root index) url
                   # OpenWrite (metadata_txt_path_of out_root index) (metadata_lines row_data url_column)
                   # net
               \<and> (\<forall>ev \<in> set net. is_network ev))
         \<and> files (snd (process_url env index row_data url_column out_root overwrite w))
              (media_type_path_of out_root index)
            = files (if overwrite then clear_artifacts env out_root index w else w)
                (media_type_path_of out_root index)
         \<and> files (snd (process_url env index row_data url_column out_root overwrite w))
              (first_embed_path_of out_root index)
            = files (if overwrite then clear_artifacts env out_root index w else w)
                (first_embed_path_of out_root index)"
proof -
  have nz: "extract_url row_data url_column \<noteq> []" using assms by simp
  have f: "fetched env url = Inr (t, Some e)"
    using assms(3) by (simp add: download_file_fst)
  have r: "fst (process_url env index row_data url_column out_root overwrite w)
           = Inr (job_id_of index, 0, Some (''download_error: '' @ e))"
    using assms(4) by (simp add: process_url_fst [OF nz] Let_def assms(1) f truthy_def or_empty_def)
  have ev: "events (snd (process_url env index row_data url_column out_root overwrite w)) =
                 events w @ MakeDirs (path_join out_root (job_id_of index))
                   # (if overwrite then removals out_root index w else [])
                   @ OpenWrite (url_txt_path_of out_root index) url
                   # OpenWrite (metadata_txt_path_of out_root index) (metadata_lines row_data url_column)
                   # fetch_events env url"
    using assms(4) by (simp add: process_url_events_eq [OF nz] assms(1) f truthy_def provisioned_events)
  have m: "files (snd (process_url env index row_data url_column out_root overwrite w))
              (media_type_path_of out_root index)
            = files (if overwrite then clear_artifacts env out_root index w else w)
                (media_type_path_of out_root index)"
    using assms(4) artifact_paths_distinct [of out_root index]
    by (simp add: process_url_files_at [OF nz] Let_def assms(1) f truthy_def provisioned_files_at)
  have b: "files (snd (process_url env index row_data url_column out_root overwrite w))
              (first_embed_path_of out_root index)
            = files (if overwrite then clear_artifacts env out_root index w else w)
                (first_embed_path_of out_root index)"
    using assms(4) artifact_paths_distinct [of out_root index]
    by (simp add: process_url_files_at [OF nz] Let_def assms(1) f truthy_def provisioned_files_at)
  show ?thesis using r ev fetch_events_network [of env url] m b by blast
qed

theorem download_error_stops_row_witness:
  "extract_url row_a (Some ''tvc'') = ''https://x/a.jpg''
   \<and> fst (download_file env_down ''https://x/a.jpg'' blank) = Inr (''image'', Some ''boom'')
   \<and> fst (process_url env_down 3 row_a (Some ''tvc'') ''out'' False blank)
       = Inr (job_id_of 3, 0, Some ''download_error: boom'')
   \<and> files (snd (process_url env_down 3 row_a (Some ''tvc'') ''out'' False blank))
       (media_type_path_of ''out'' 3) = None
   \<and> files (snd (process_url env_down 3 row_a (Some ''tvc'') ''out'' False blank))
       (first_embed_path_of ''out'' 3) = None"
proof -
  have u: "extract_url row_a (Some ''tvc'') = ''https://x/a.jpg''" by code_simp
  have nz: "''https://x/a.jpg'' \<noteq> []" by simp
  have d: "fst (download_file env_down ''https://x/a.jpg'' blank) = Inr (''image'', Some ''boom'')"
    by code_simp
  have e: "''boom'' \<noteq> []" by simp
  show ?thesis
    using download_error_stops_row [OF u nz d e, where index = 3 and out_root = "''out''"
        and overwrite = False and w = blank] u d
    by simp
qed

text \<open>The claim as stated fails on a job that an earlier run completed: without
  \<open>overwrite\<close> a failed download leaves the earlier \<open>media_type.txt\<close> and embedding in
  the job directory.\<close>

theorem download_error_keeps_old_artifacts:
  "fst (process_url env_down 3 row_a (Some ''tvc'') ''out'' False complete_job)
     = Inr (''url_0003'', 0, Some ''download_error: boom'')
   \<and> files (snd (process_url env_down 3 row_a (Some ''tvc'') ''out'' False complete_job))
       ''out/url_0003/media_type.txt'' = Some ''image''
   \<and> files (snd (process_url env_down 3 row_a (Some ''tvc'') ''out'' False complete_job))
       ''out/url_0003/first_frame.npy'' = Some ''vector''"
  by code_simp

text \<open>
  C5 (amended). With \<open>overwrite\<close> set, on a row that has a URL, \<open>process_url\<close> calls
  \<open>os.remove\<close> for each of the four artifacts that exists (\<^const>\<open>removals\<close>) right after
  making the job directory; no removal comes after these, so all of them precede the
  first write. A removal that fails is swallowed. Each artifact whose removal does not
  fail is, when \<open>process_url\<close> returns, either absent or holds what this run wrote to it;
  in particular, unless removing it failed, the embedding artifact is absent whenever
  the run ends with a reason. (A row without a URL returns before the cleanup.)
\<close>

theorem overwrite_clears_before_writing:
  assumes nz: "extract_url row_data url_column \<noteq> []"
  shows "\<exists>rest.
     events (snd (process_url env index row_data url_column out_root True w)) =
       events w @ MakeDirs (path_join out_root (job_id_of index))
         # removals out_root index w @ rest
     \<and> (\<forall>e \<in> set rest. \<not> is_remove e)
     \<and> (\<forall>p \<in> {first_embed_path_of out_root index, url_txt_path_of out_root index,
                metadata_txt_path_of out_root index, media_type_path_of out_root index}.
           \<not> remove_error env p \<longrightarrow>
             files (snd (process_url env index row_data url_column out_root True w)) p = None
             \<or> (\<exists>c. files (snd (process_url env index row_data url_column out_root True w)) p = Some c
                   \<and> (OpenWrite p c \<in> set rest \<or> EmbedCall p \<in> set rest)))
     \<and> (\<not> remove_error env (first_embed_path_of out_root index) \<longrightarrow>
           (\<exists>jid n. fst (process_url env index row_data url_column out_root True w) = Inr (jid, n, None))
           \<or> files (snd (process_url env index row_data url_column out_root True w))
                (first_embed_path_of out_root index) = None)"
proof -
  let ?P = "process_url env index row_data url_column out_root True"
  let ?url = "extract_url row_data url_column"
  let ?ep = "first_embed_path_of out_root index"
  let ?up = "url_txt_path_of out_root index"
  let ?dp = "metadata_txt_path_of out_root index"
  let ?mp = "media_type_path_of out_root index"
  let ?prov = "provisioned env index row_data url_column out_root True w"
  let ?head = "[OpenWrite ?up ?url, OpenWrite ?dp (metadata_lines row_data url_column)]
                 @ fetch_events env ?url"
  note dist = artifact_paths_distinct [of out_root index]
  obtain t err where f: "fetched env ?url = Inr (t, err)"
    using fetched_cases by blast
  have net: "\<forall>e \<in> set (fetch_events env ?url). \<not> is_remove e"
    using fetch_events_network [of env ?url] by (auto simp: is_network_def is_remove_def split: event.splits)
  have pf: "\<And>p. files ?prov p =
      (if p = ?dp \<and> \<not> write_error env p then Some (metadata_lines row_data url_column)
       else if p = ?up \<and> \<not> write_error env p then Some ?url
       else if p \<in> {?ep, ?up, ?dp, ?mp} \<and> \<not> remove_error env p then None else files w p)"
    using dist by (auto simp: provisioned_files_at clear_artifacts_files)
  have pe: "events ?prov = events w @ MakeDirs (path_join out_root (job_id_of index))
         # removals out_root index w @ [OpenWrite ?up ?url, OpenWrite ?dp (metadata_lines row_data url_column)]"
    by (simp add: provisioned_events)
  show ?thesis
  proof (cases "truthy err")
    case True
    then have e: "\<And>p. files (snd (?P w)) p = files ?prov p"
      by (simp add: process_url_files_at [OF nz] Let_def f)
    have r: "fst (?P w) = Inr (job_id_of index, 0, Some (''download_error: '' @ or_empty err))"
      using True by (simp add: process_url_fst [OF nz] Let_def f)
    have ev: "events (snd (?P w)) = events w @ MakeDirs (path_join out_root (job_id_of index))
         # removals out_root index w @ ?head"
      using True by (simp add: process_url_events_eq [OF nz] f pe)
    show ?thesis
      apply (rule exI [of _ ?head])
      using dist net by (auto simp: ev e pf is_remove_def)
  next
    case ok: False
    show ?thesis
    proof (cases "extract_frame env t (fetched_media env ?url)")
      case (Inl reason)
      then have e: "\<And>p. files (snd (?P w)) p
          = (if p = ?mp \<and> \<not> write_error env p then Some t else files ?prov p)"
        using ok by (auto simp: process_url_files_at [OF nz] Let_def f)
      have r: "fst (?P w) = Inr (job_id_of index, 0, Some reason)"
        using ok Inl by (simp add: process_url_fst [OF nz] Let_def f)
      have ev: "events (snd (?P w)) = events w @ MakeDirs (path_join out_root (job_id_of index))
           # removals out_root index w @ (?head @ [OpenWrite ?mp t])"
        using ok Inl by (simp add: process_url_events_eq [OF nz] f pe)
      show ?thesis
        apply (rule exI [of _ "?head @ [OpenWrite ?mp t]"])
        using dist net by (auto simp: ev e pf is_remove_def)
    next
      case still: (Inr still)
      show ?thesis
      proof (cases "embed_image_clip_to_npy env still")
        case (Inl x)
        then have e: "\<And>p. files (snd (?P w)) p
            = (if p = ?mp \<and> \<not> write_error env p then Some t else files ?prov p)"
          using ok still by (auto simp: process_url_files_at [OF nz] Let_def f)
        have ev: "events (snd (?P w)) = events w @ MakeDirs (path_join out_root (job_id_of index))
             # removals out_root index w @ (?head @ [OpenWrite ?mp t, EmbedCall ?ep])"
          using ok still by (simp add: process_url_events_eq [OF nz] f pe)
        show ?thesis
          apply (rule exI [of _ "?head @ [OpenWrite ?mp t, EmbedCall ?ep]"])
          using dist net by (auto simp: ev e pf is_remove_def)
      next
        case (Inr v)
        then have e: "\<And>p. files (snd (?P w)) p
            = (if p = ?ep then Some v
               else if p = ?mp \<and> \<not> write_error env p then Some t else files ?prov p)"
          using ok still by (auto simp: process_url_files_at [OF nz] Let_def f)
        have r: "fst (?P w) = Inr (job_id_of index, 1, None)"
          using ok still Inr by (simp add: process_url_fst [OF nz] Let_def f)
        have ev: "events (snd (?P w)) = events w @ MakeDirs (path_join out_root (job_id_of index))
             # removals out_root index w @ (?head @ [OpenWrite ?mp t, EmbedCall ?ep])"
          using ok still by (simp add: process_url_events_eq [OF nz] f pe)
        show ?thesis
          apply (rule exI [of _ "?head @ [OpenWrite ?mp t, EmbedCall ?ep]"])
          using dist net r by (auto simp: ev e pf is_remove_def)
      qed
    qed
  qed
qed

theorem overwrite_clears_before_writing_witness:
  "extract_url row_a (Some ''tvc'') \<noteq> []
   \<and> \<not> remove_error env_down (first_embed_path_of ''out'' 3)
   \<and> files complete_job (first_embed_path_of ''out'' 3) = Some ''vector''
   \<and> fst (process_url env_down 3 row_a (Some ''tvc'') ''out'' True complete_job)
       = Inr (''url_0003'', 0, Some ''download_error: boom'')
   \<and> files (snd (process_url env_down 3 row_a (Some ''tvc'') ''out'' True complete_job))
       (first_embed_path_of ''out'' 3) = None
   \<and> (\<exists>rest.
         events (snd (process_url env_down 3 row_a (Some ''tvc'') ''out'' True complete_job)) =
           events complete_job @ MakeDirs (path_join ''out'' (job_id_of 3))
             # removals ''out'' 3 complete_job @ rest
         \<and> (\<forall>e \<in> set rest. \<not> is_remove e))"
proof -
  have h: "extract_url row_a (Some ''tvc'') \<noteq> []" by code_simp
  have k: "\<not> remove_error env_down (first_embed_path_of ''out'' 3)"
    by (simp add: env_down_def)
  have v: "files complete_job (first_embed_path_of ''out'' 3) = Some ''vector''" by code_simp
  have r: "fst (process_url env_down 3 row_a (Some ''tvc'') ''out'' True complete_job)
       = Inr (''url_0003'', 0, Some ''download_error: boom'')" by code_simp
  show ?thesis
    using overwrite_clears_before_writing [OF h, of env_down 3 "''out''" complete_job] h k v r
    by auto
qed

text \<open>The claim as stated fails when the removal is refused: the old embedding is still
  there after a rerun that failed at the download. It also fails on a row without a
  URL, which returns before the cleanup.\<close>

theorem overwrite_leaves_stale_embedding:
  "files complete_job ''out/url_0003/first_frame.npy'' = Some ''vector''
   \<and> fst (process_url env_sticky 3 row_a (Some ''tvc'') ''out'' True complete_job)
       = Inr (''url_0003'', 0, Some ''download_error: boom'')
   \<and> files (snd (process_url env_sticky 3 row_a (Some ''tvc'') ''out'' True complete_job))
       ''out/url_0003/first_frame.npy'' = Some ''vector''
   \<and> fst (process_url env_down 3 row_empty (Some ''tvc'') ''out'' True complete_job)
       = Inr (''url_0003'', 0, Some ''no_url_in_row'')
   \<and> files (snd (process_url env_down 3 row_empty (Some ''tvc'') ''out'' True complete_job))
       ''out/url_0003/first_frame.npy'' = Some ''vector''"
  by code_simp



text \<open>
  C3 (amended). \<open>read_urls\<close> keeps only the rows that have a URL: a row whose URL cell
  is empty or blank is dropped before the batch starts, gets no ordinal and no job, and
  no line of a finished batch carries the reason \<open>no_url_in_row\<close>. \<open>process_url\<close>
  itself, handed such a row, returns that reason with zero frames and leaves the world
  exactly as it was: not even the job directory is made.
\<close>

theorem empty_url_rows:
  "(\<forall>rows. read_urls env csv_path column = Inr rows \<longrightarrow>
        (\<forall>row \<in> set rows. extract_url row column \<noteq> []))
   \<and> (extract_url row_data url_column = [] \<longrightarrow>
        process_url env index row_data url_column out_root overwrite w
          = (Inr (job_id_of index, 0, Some ''no_url_in_row''), w))
   \<and> (\<forall>ok fail lines w'. main env a w = (Inr (Done ok fail lines), w') \<longrightarrow>
        (\<forall>l \<in> set lines. snd (snd (snd l)) \<noteq> Some ''no_url_in_row''))"
proof -
  have a1: "\<forall>rows. read_urls env csv_path column = Inr rows \<longrightarrow>
        (\<forall>row \<in> set rows. extract_url row column \<noteq> [])"
    using read_urls_have_url by blast
  have a2: "extract_url row_data url_column = [] \<longrightarrow>
        process_url env index row_data url_column out_root overwrite w
          = (Inr (job_id_of index, 0, Some ''no_url_in_row''), w)"
    by (simp add: process_url_def)
  have a3: "\<forall>ok fail lines w'. main env a w = (Inr (Done ok fail lines), w') \<longrightarrow>
        (\<forall>l \<in> set lines. snd (snd (snd l)) \<noteq> Some ''no_url_in_row'')"
  proof (intro allI impI)
    fix ok fail lines w'
    assume m: "main env a w = (Inr (Done ok fail lines), w')"
    then have ex: "csv_rows env (arg_input a) \<noteq> None"
      by (auto simp: main_def split: if_splits)
    then obtain rows where rd: "read_urls env (arg_input a) (Some (arg_column a)) = Inr rows"
      by (auto simp: read_urls_def)
    have lt: "resolved_start a < resolved_end a rows"
      using m ex rd by (auto simp: main_def Let_def split: if_splits)
    let ?idx = "[nat (resolved_start a) ..< nat (resolved_end a rows)]"
    have inb: "\<forall>i \<in> set ?idx. i < length rows"
      using resolved_end_le [of a rows] by auto
    have rr: "run_rows env rows (arg_column a) (arg_out_dir a) (arg_overwrite a) ?idx (0, 0, [])
             (ensure_dir (arg_out_dir a) w) = (Inr (ok, fail, lines), w')"
      using m ex rd lt
      by (auto simp: main_def Let_def split: if_splits prod.splits sum.splits)
    show "\<forall>l \<in> set lines. snd (snd (snd l)) \<noteq> Some ''no_url_in_row''"
      using run_rows_reasons [OF inb read_urls_have_url [OF rd] _ rr] by simp
  qed
  show ?thesis using a1 a2 a3 by blast
qed

theorem empty_url_rows_witness:
  "read_urls env_image ''in.csv'' (Some ''tvc'') = Inr [row_a]
   \<and> extract_url row_a (Some ''tvc'') \<noteq> []
   \<and> extract_url row_empty (Some ''tvc'') = []
   \<and> process_url env_image 3 row_empty (Some ''tvc'') ''out'' True complete_job
       = (Inr (job_id_of 3, 0, Some ''no_url_in_row''), complete_job)"
proof -
  have r: "read_urls env_image ''in.csv'' (Some ''tvc'') = Inr [row_a]" by code_simp
  have e: "extract_url row_empty (Some ''tvc'') = []" by code_simp
  show ?thesis
    using empty_url_rows [of env_image "''in.csv''" "Some ''tvc''" row_empty "Some ''tvc''" 3
        "''out''" True complete_job] r e
    by simp
qed

text \<open>The claim as stated fails on an input whose first row has a blank URL cell: the
  batch ends with one line, for the other row under ordinal 0, and counts no failure.\<close>

theorem empty_row_not_counted:
  "csv_rows env_image ''in.csv'' = Some [row_empty, row_a]
   \<and> extract_url row_empty (Some ''tvc'') = []
   \<and> fst (main env_image args_all blank) = Inr (Done 1 0 [(0, ''url_0000'', 1, None)])"
  by code_simp

end
